theory Spec2Isabelle
  imports Main
begin

unbundle bit_operations_syntax

section \<open>Data model\<close>

text \<open>
  Go strings and byte slices are byte sequences; both are modelled as \<open>string\<close>
  (a \<open>char\<close> is one byte). A Go \<open>error\<close> is modelled by its message.
\<close>

type_synonym error = string

text \<open>
  The fields of \<open>github.Label\<close>, \<open>github.Issue\<close> and \<open>github.IssueEvent\<close> that
  \<open>main.go\<close> reads. Pointer fields are options: \<open>None\<close> is the nil pointer.
\<close>

record Label =
  Name :: "string option"

record Issue =
  Number :: "int option"
  State :: "string option"
  Labels :: "Label list"

record IssueEvent =
  Issue :: "Issue option"

text \<open>The nil-safe getters of go-github that \<open>main.go\<close> calls.\<close>

definition GetName :: "Label \<Rightarrow> string" where
  "GetName label = (case Name label of None \<Rightarrow> [] | Some n \<Rightarrow> n)"

definition GetNumber :: "Issue \<Rightarrow> int" where
  "GetNumber issue = (case Number issue of None \<Rightarrow> 0 | Some n \<Rightarrow> n)"

text \<open>The constants of \<open>main.go\<close>.\<close>

definition docsHasImpact :: string where
  "docsHasImpact = ''docs/has-impact''"

definition docsNoImpact :: string where
  "docsNoImpact = ''docs/no-impact''"

definition repoName :: string where
  "repoName = ''vic''"

definition repoOwner :: string where
  "repoOwner = ''vmware''"

text \<open>
  What the program calls outside itself, taken as parameters: the standard library
  (\<open>http.CanonicalHeaderKey\<close>; the HMAC-SHA1 object of \<open>hmac.New(sha1.New, key)\<close> with
  its \<open>Write\<close>, which returns a byte count and an error, and its \<open>Sum\<close>; the JSON
  decoder, which yields an error or an event pointer, nil for the JSON value null) and
  the answers of the GitHub API to the two calls of \<open>reopenIssue\<close> (access token, owner,
  repository, issue number, then the comment body or the new state).
\<close>

record lib =
  CanonicalHeaderKey :: "string \<Rightarrow> string"
  Write :: "string \<Rightarrow> string \<Rightarrow> int \<times> error option"
  Sum :: "string \<Rightarrow> string \<Rightarrow> string"
  Decode :: "string \<Rightarrow> error + IssueEvent option"
  Issues_CreateComment :: "string \<Rightarrow> string \<Rightarrow> string \<Rightarrow> int \<Rightarrow> string \<Rightarrow> error option"
  Issues_Edit :: "string \<Rightarrow> string \<Rightarrow> string \<Rightarrow> int \<Rightarrow> string \<Rightarrow> error option"

text \<open>The two process-wide variables set by \<open>main\<close>.\<close>

record config =
  secretToken :: string
  githubAccessToken :: string

text \<open>
  A request: the header map in the order the \<open>range\<close> loop visits it, and what
  \<open>ioutil.ReadAll(req.Body)\<close> yields, the error or the bytes.
\<close>

record request =
  Header :: "(string \<times> string list) list"
  Body :: "error + string"

text \<open>
  What a run does, in order: writes to standard error, the standard logger, the error
  response, the decoding of the body, and the calls of \<open>reopenIssue\<close> and of the API.
\<close>

datatype effect =
    Stderr string
  | LogPrintf string
  | HttpError string nat
  | JsonDecode string
  | ReopenIssue Issue
  | CreateComment string string int string
  | Edit string string int string

text \<open>A handler returns, or panics on a nil pointer dereference.\<close>

datatype outcome = Returned | Panicked

section \<open>The signature validator\<close>

text \<open>\<open>hex.EncodeToString\<close>: two lowercase hexadecimal digits for each byte.\<close>

definition hextable :: string where
  "hextable = ''0123456789abcdef''"

definition EncodeToString :: "string \<Rightarrow> string" where
  "EncodeToString src =
     concat (map (\<lambda>c. [hextable ! (of_char c div 16), hextable ! (of_char c mod 16)]) src)"

text \<open>
  \<open>hmac.Equal\<close> compares two byte slices without leaking timing; its result is their
  equality.
\<close>

definition hmac_Equal :: "string \<Rightarrow> string \<Rightarrow> bool" where
  "hmac_Equal mac1 mac2 = (mac1 = mac2)"

text \<open>
  \<open>validateHeaderSig\<close>: the loop over the header map returns at the first key whose
  canonical form is \<open>X-Hub-Signature\<close>. The result is \<open>validated\<close> with the texts
  written to standard error.
\<close>

fun validateHeaderSig :: "lib \<Rightarrow> string \<Rightarrow> (string \<times> string list) list \<Rightarrow> string \<Rightarrow> bool \<times> string list" where
  "validateHeaderSig l key [] body = (False, [])"
| "validateHeaderSig l key ((k, v) # headers) body =
     (if CanonicalHeaderKey l k = ''X-Hub-Signature'' then
        (if length v \<noteq> 1 then (False, [''Got suspicious signature''])
         else (case Write l key body of
                 (n, Some err) \<Rightarrow>
                   (if n \<le> 0
                    then (False, [''Failed to write request body to HMAC to calculate signature'',
                                  ''Body of request was empty''])
                    else (False, [''Failed to write request body to HMAC to calculate signature'']))
               | (n, None) \<Rightarrow>
                   (let signature = Sum l key body
                    in (hmac_Equal (v ! 0) (''sha1='' @ EncodeToString signature), []))))
      else validateHeaderSig l key headers body)"

section \<open>The label policy\<close>

fun hasDocLabels :: "Label list \<Rightarrow> bool" where
  "hasDocLabels [] = False"
| "hasDocLabels (label # labels) =
     (let name = GetName label
      in if name = docsHasImpact \<or> name = docsNoImpact then True else hasDocLabels labels)"

section \<open>The issue reopener\<close>

definition reminder :: string where
  "reminder = ''Please help keep our documentation up to date by adding either `'' @ docsNoImpact
     @ ''` or `'' @ docsHasImpact
     @ ''` as a label to this issue to notify our documentation authors as to whether or not this issue affects the documentation.''"

definition reopenIssue :: "lib \<Rightarrow> config \<Rightarrow> Issue \<Rightarrow> error option \<times> effect list" where
  "reopenIssue l cfg issue =
     (let comment = reminder;
          call1 = CreateComment repoOwner repoName (GetNumber issue) comment
      in case Issues_CreateComment l (githubAccessToken cfg) repoOwner repoName (GetNumber issue) comment of
           Some err \<Rightarrow>
             (Some err, [call1, Stderr (''Got '' @ err @ '' trying to add a friendly comment to the issue'')])
         | None \<Rightarrow>
             (let call2 = Edit repoOwner repoName (GetNumber issue) ''open''
              in case Issues_Edit l (githubAccessToken cfg) repoOwner repoName (GetNumber issue) ''open'' of
                   Some err \<Rightarrow>
                     (Some err, [call1, call2, Stderr (''Got '' @ err @ '' trying to reopen the issue'')])
                 | None \<Rightarrow> (None, [call1, call2])))"

section \<open>The webhook receiver\<close>

definition cant_read_body :: string where
  "cant_read_body = ''can'' @ [CHR 0x27] @ ''t read body''"

definition StatusBadRequest :: nat where
  "StatusBadRequest = 400"

definition receiver :: "lib \<Rightarrow> config \<Rightarrow> request \<Rightarrow> outcome \<times> effect list" where
  "receiver l cfg req =
     (case Body req of
        Inl err \<Rightarrow>
          (Returned, [LogPrintf (''Error reading body: '' @ err), HttpError cant_read_body StatusBadRequest])
      | Inr body \<Rightarrow>
          (case validateHeaderSig l (secretToken cfg) (Header req) body of
             (validated, diag) \<Rightarrow>
               (if \<not> validated then (Returned, map Stderr diag)
                else (case Decode l body of
                        Inl err \<Rightarrow>
                          (Returned, map Stderr diag @ [JsonDecode body, Stderr (''Could not decode json: '' @ err)])
                      | Inr None \<Rightarrow> (Panicked, map Stderr diag @ [JsonDecode body])
                      | Inr (Some event) \<Rightarrow>
                          (case Issue event of
                             None \<Rightarrow> (Returned, map Stderr diag @ [JsonDecode body])
                           | Some issue \<Rightarrow>
                               (case State issue of
                                  None \<Rightarrow> (Panicked, map Stderr diag @ [JsonDecode body])
                                | Some state \<Rightarrow>
                                    (if state = ''closed'' \<and> \<not> hasDocLabels (Labels issue) then
                                       (case reopenIssue l cfg issue of
                                          (Some err, calls) \<Rightarrow>
                                            (Returned, map Stderr diag @ [JsonDecode body, ReopenIssue issue] @ calls
                                               @ [Stderr (''Got error reopening issue: '' @ err)])
                                        | (None, calls) \<Rightarrow>
                                            (Returned, map Stderr diag @ [JsonDecode body, ReopenIssue issue] @ calls))
                                     else (Returned, map Stderr diag @ [JsonDecode body]))))))))"

section \<open>Observations on a run\<close>

text \<open>The header entry at which the loop of \<open>validateHeaderSig\<close> returns, if any.\<close>

definition signature_header :: "lib \<Rightarrow> (string \<times> string list) list \<Rightarrow> (string \<times> string list) option" where
  "signature_header l headers = find (\<lambda>(k, v). CanonicalHeaderKey l k = ''X-Hub-Signature'') headers"

text \<open>The header value GitHub sends for a body: \<open>sha1=\<close> and the digest in hexadecimal.\<close>

definition expected_signature :: "lib \<Rightarrow> string \<Rightarrow> string \<Rightarrow> string" where
  "expected_signature l key body = ''sha1='' @ EncodeToString (Sum l key body)"

fun is_ReopenIssue :: "effect \<Rightarrow> bool" where
  "is_ReopenIssue (ReopenIssue issue) = True"
| "is_ReopenIssue e = False"

fun is_JsonDecode :: "effect \<Rightarrow> bool" where
  "is_JsonDecode (JsonDecode body) = True"
| "is_JsonDecode e = False"

fun is_Edit :: "effect \<Rightarrow> bool" where
  "is_Edit (Edit owner repo number state) = True"
| "is_Edit e = False"

fun is_CreateComment :: "effect \<Rightarrow> bool" where
  "is_CreateComment (CreateComment owner repo number body) = True"
| "is_CreateComment e = False"

text \<open>How often a run calls \<open>reopenIssue\<close>.\<close>

definition invocations :: "effect list \<Rightarrow> nat" where
  "invocations effects = length (filter is_ReopenIssue effects)"

text \<open>
  Flipping bit \<open>i\<close> of a byte, and bit \<open>i\<close> of a byte sequence (eight bits a byte;
  a sequence without that bit is left as it is).
\<close>

definition flip_byte :: "nat \<Rightarrow> char \<Rightarrow> char" where
  "flip_byte i c = char_of ((of_char c :: nat) XOR 2 ^ i)"

definition flip_bit :: "nat \<Rightarrow> string \<Rightarrow> string" where
  "flip_bit i bs =
     (if i div 8 < length bs then bs[i div 8 := flip_byte (i mod 8) (bs ! (i div 8))] else bs)"

section \<open>A fixed environment for closed instances\<close>

text \<open>
  Three webhook bodies and the events the decoder makes of them, the JSON value null
  (a nil event) and the failure on anything else.
\<close>

definition body_closed_unlabelled :: string where
  \<open>body_closed_unlabelled = ''{"issue":{"number":7,"state":"closed","labels":[]}}''\<close>

definition body_open_unlabelled :: string where
  \<open>body_open_unlabelled = ''{"issue":{"number":7,"state":"open","labels":[]}}''\<close>

definition body_no_state :: string where
  \<open>body_no_state = ''{"issue":{"number":7}}''\<close>

definition closed_unlabelled :: Issue where
  "closed_unlabelled = \<lparr>Number = Some 7, State = Some ''closed'', Labels = []\<rparr>"

definition open_unlabelled :: Issue where
  "open_unlabelled = \<lparr>Number = Some 7, State = Some ''open'', Labels = []\<rparr>"

definition no_state :: Issue where
  "no_state = \<lparr>Number = Some 7, State = None, Labels = []\<rparr>"

definition test_Decode :: "string \<Rightarrow> error + IssueEvent option" where
  "test_Decode body =
     (if body = body_closed_unlabelled then Inr (Some \<lparr>Issue = Some closed_unlabelled\<rparr>)
      else if body = body_open_unlabelled then Inr (Some \<lparr>Issue = Some open_unlabelled\<rparr>)
      else if body = body_no_state then Inr (Some \<lparr>Issue = Some no_state\<rparr>)
      else if body = ''null'' then Inr None
      else Inl ''invalid character'')"

text \<open>
  The environment: header keys that are canonical already, a \<open>Write\<close> that takes every
  body, as a \<open>hash.Hash\<close> does, a stand-in digest of twenty bytes, and an API that
  accepts both calls. The theorems themselves hold for every environment.
\<close>

definition test_lib :: lib where
  "test_lib = \<lparr>CanonicalHeaderKey = (\<lambda>k. k),
     Write = (\<lambda>key body. (int (length body), None)),
     Sum = (\<lambda>key body. take 20 (key @ body @ replicate 20 (CHR 0x00))),
     Decode = test_Decode,
     Issues_CreateComment = (\<lambda>token owner repo number body. None),
     Issues_Edit = (\<lambda>token owner repo number state. None)\<rparr>"

definition test_config :: config where
  "test_config = \<lparr>secretToken = ''s3cret'', githubAccessToken = ''t0ken''\<rparr>"

definition signed_request :: "lib \<Rightarrow> config \<Rightarrow> string \<Rightarrow> request" where
  "signed_request l cfg body =
     \<lparr>Header = [(''Content-Type'', [''application/json'']),
                (''X-Hub-Signature'', [expected_signature l (secretToken cfg) body])],
      Body = Inr body\<rparr>"

definition unsigned_headers :: "(string \<times> string list) list" where
  "unsigned_headers = [(''Content-Type'', [''application/json''])]"

section \<open>The signature validator: the loop as a lookup\<close>

lemma signature_header_None:
  "signature_header l headers = None \<longleftrightarrow>
     (\<forall>(k, v) \<in> set headers. CanonicalHeaderKey l k \<noteq> ''X-Hub-Signature'')"
  by (auto simp: signature_header_def find_None_iff)

lemma validateHeaderSig_find:
  "validateHeaderSig l key headers body =
     (case signature_header l headers of
        None \<Rightarrow> (False, [])
      | Some (k, v) \<Rightarrow>
          (if length v \<noteq> 1 then (False, [''Got suspicious signature''])
           else (case Write l key body of
                   (n, Some err) \<Rightarrow>
                     (if n \<le> 0
                      then (False, [''Failed to write request body to HMAC to calculate signature'',
                                    ''Body of request was empty''])
                      else (False, [''Failed to write request body to HMAC to calculate signature'']))
                 | (n, None) \<Rightarrow> (v ! 0 = expected_signature l key body, []))))"
  by (induction headers)
    (auto simp: signature_header_def expected_signature_def hmac_Equal_def
      split: prod.splits option.splits)

lemma validateHeaderSig_absent:
  "signature_header l headers = None \<Longrightarrow> validateHeaderSig l key headers body = (False, [])"
  by (simp add: validateHeaderSig_find)

lemma validateHeaderSig_suspicious:
  "signature_header l headers = Some (k, v) \<Longrightarrow> length v \<noteq> 1 \<Longrightarrow>
     validateHeaderSig l key headers body = (False, [''Got suspicious signature''])"
  by (simp add: validateHeaderSig_find)

lemma validateHeaderSig_write_failure:
  "signature_header l headers = Some (k, v) \<Longrightarrow> length v = 1 \<Longrightarrow>
   Write l key body = (n, Some err) \<Longrightarrow>
     fst (validateHeaderSig l key headers body) = False
     \<and> ''Failed to write request body to HMAC to calculate signature''
         \<in> set (snd (validateHeaderSig l key headers body))"
  by (simp add: validateHeaderSig_find)

lemma validateHeaderSig_compared:
  "signature_header l headers = Some (k, [s]) \<Longrightarrow> snd (Write l key body) = None \<Longrightarrow>
     validateHeaderSig l key headers body = (s = expected_signature l key body, [])"
  by (cases "Write l key body") (simp add: validateHeaderSig_find)

lemma validateHeaderSig_True_quiet:
  "fst (validateHeaderSig l key headers body) \<Longrightarrow> snd (validateHeaderSig l key headers body) = []"
  by (auto simp: validateHeaderSig_find split: option.splits prod.splits if_splits)

lemma signature_header_signed_request:
  "CanonicalHeaderKey l ''Content-Type'' \<noteq> ''X-Hub-Signature'' \<Longrightarrow>
   CanonicalHeaderKey l ''X-Hub-Signature'' = ''X-Hub-Signature'' \<Longrightarrow>
     signature_header l (Header (signed_request l cfg body))
       = Some (''X-Hub-Signature'', [expected_signature l (secretToken cfg) body])"
  by (simp add: signature_header_def signed_request_def)

lemma test_lib_validates:
  "validateHeaderSig test_lib (secretToken test_config)
     (Header (signed_request test_lib test_config body)) body = (True, [])"
proof -
  have "signature_header test_lib (Header (signed_request test_lib test_config body))
          = Some (''X-Hub-Signature'', [expected_signature test_lib (secretToken test_config) body])"
    by (rule signature_header_signed_request) (simp_all add: test_lib_def)
  moreover have "snd (Write test_lib (secretToken test_config) body) = None"
    by (simp add: test_lib_def)
  ultimately show ?thesis
    by (simp add: validateHeaderSig_compared)
qed

subsection \<open>Genuine and tampered signatures\<close>

text \<open>
  A request whose signature header carries the one value GitHub computes for the body
  is accepted.
\<close>

lemma validateHeaderSig_accepts_genuine:
  "signature_header l headers = Some (k, [expected_signature l key body]) \<Longrightarrow>
   snd (Write l key body) = None \<Longrightarrow>
     fst (validateHeaderSig l key headers body)"
  by (simp add: validateHeaderSig_compared)

lemma flip_byte_neq:
  assumes "i < 8"
  shows "flip_byte i c \<noteq> c"
proof
  assume "flip_byte i c = c"
  then have "(of_char (flip_byte i c) :: nat) = of_char c"
    by simp
  then have "take_bit 8 ((of_char c :: nat) XOR 2 ^ i) = of_char c"
    by (simp add: flip_byte_def take_bit_eq_mod)
  then have "bit (take_bit 8 ((of_char c :: nat) XOR 2 ^ i)) i = bit (of_char c :: nat) i"
    by simp
  with assms show False
    by (simp add: bit_simps)
qed

lemma flip_bit_neq:
  assumes "i < 8 * length bs"
  shows "flip_bit i bs \<noteq> bs"
proof
  assume same: "flip_bit i bs = bs"
  from assms have inside: "i div 8 < length bs"
    by auto
  from same have "flip_bit i bs ! (i div 8) = bs ! (i div 8)"
    by simp
  with inside have "flip_byte (i mod 8) (bs ! (i div 8)) = bs ! (i div 8)"
    by (simp add: flip_bit_def)
  then show False
    using flip_byte_neq [of "i mod 8"] by simp
qed

text \<open>A signature value with one bit flipped is rejected.\<close>

lemma validateHeaderSig_rejects_flipped_signature:
  assumes "signature_header l headers = Some (k, [flip_bit i (expected_signature l key body)])"
    and "i < 8 * length (expected_signature l key body)"
  shows "\<not> fst (validateHeaderSig l key headers body)"
proof (cases "Write l key body")
  case (Pair n e)
  from assms(2) have "flip_bit i (expected_signature l key body) \<noteq> expected_signature l key body"
    by (rule flip_bit_neq)
  with assms(1) Pair show ?thesis
    by (cases e) (simp_all add: validateHeaderSig_find)
qed

text \<open>
  A body with one bit flipped is rejected exactly when its digest differs from the
  digest of the signed body: the rest is a property of HMAC-SHA1, not of this program.
\<close>

lemma validateHeaderSig_flipped_body:
  assumes "signature_header l headers = Some (k, [expected_signature l key body])"
    and "snd (Write l key (flip_bit i body)) = None"
  shows "fst (validateHeaderSig l key headers (flip_bit i body))
           \<longleftrightarrow> expected_signature l key (flip_bit i body) = expected_signature l key body"
  using assms by (auto simp: validateHeaderSig_compared)

section \<open>The label policy\<close>

lemma hasDocLabels_set:
  "hasDocLabels labels \<longleftrightarrow>
     (\<exists>label \<in> set labels. GetName label = docsHasImpact \<or> GetName label = docsNoImpact)"
  by (induction labels) (auto simp: Let_def)

lemma GetName_eq: "s \<noteq> [] \<Longrightarrow> GetName label = s \<longleftrightarrow> Name label = Some s"
  by (auto simp: GetName_def split: option.splits)

text \<open>
  C3. The label policy returns true if and only if some label's name is, byte for byte,
  \<open>docs/has-impact\<close> or \<open>docs/no-impact\<close>; on no labels it returns false. Its result
  is its only output: the function has a truth value as its whole result.
\<close>

theorem hasDocLabels_iff:
  "(hasDocLabels labels \<longleftrightarrow>
      (\<exists>label \<in> set labels.
         Name label = Some ''docs/has-impact'' \<or> Name label = Some ''docs/no-impact''))
   \<and> hasDocLabels [] = False"
  by (simp add: hasDocLabels_set GetName_eq docsHasImpact_def docsNoImpact_def)

theorem hasDocLabels_iff_witness:
  "hasDocLabels [\<lparr>Name = Some ''bug''\<rparr>, \<lparr>Name = Some ''docs/no-impact''\<rparr>]
   \<and> \<not> hasDocLabels [\<lparr>Name = Some ''Docs/No-Impact''\<rparr>, \<lparr>Name = None\<rparr>]
   \<and> \<not> hasDocLabels []"
  using hasDocLabels_iff [of "[\<lparr>Name = Some ''bug''\<rparr>, \<lparr>Name = Some ''docs/no-impact''\<rparr>]"]
    hasDocLabels_iff [of "[\<lparr>Name = Some ''Docs/No-Impact''\<rparr>, \<lparr>Name = None\<rparr>]"]
  by simp


section \<open>Rejections and diagnostics of the validator\<close>

text \<open>
  C7. The signature validator returns false when the \<open>X-Hub-Signature\<close> header is
  absent, when it has no value or several values, and when its one value differs from
  the computed signature string.
\<close>

theorem validateHeaderSig_rejects:
  assumes "signature_header l headers = None
           \<or> (\<exists>k v. signature_header l headers = Some (k, v) \<and> length v \<noteq> 1)
           \<or> (\<exists>k s. signature_header l headers = Some (k, [s])
                    \<and> s \<noteq> ''sha1='' @ EncodeToString (Sum l key body))"
  shows "fst (validateHeaderSig l key headers body) = False"
  using assms
  by (auto simp: validateHeaderSig_find expected_signature_def split: prod.splits option.splits)

theorem validateHeaderSig_rejects_witness:
  "signature_header test_lib unsigned_headers = None
   \<and> fst (validateHeaderSig test_lib ''s3cret'' unsigned_headers body_no_state) = False
   \<and> signature_header test_lib [(''X-Hub-Signature'', [])] = Some (''X-Hub-Signature'', [])
   \<and> fst (validateHeaderSig test_lib ''s3cret'' [(''X-Hub-Signature'', [])] body_no_state) = False
   \<and> signature_header test_lib [(''X-Hub-Signature'', [''sha1=00'', ''sha1=01''])]
       = Some (''X-Hub-Signature'', [''sha1=00'', ''sha1=01''])
   \<and> fst (validateHeaderSig test_lib ''s3cret'' [(''X-Hub-Signature'', [''sha1=00'', ''sha1=01''])]
        body_no_state) = False
   \<and> signature_header test_lib [(''X-Hub-Signature'', [''md5=00''])]
       = Some (''X-Hub-Signature'', [''md5=00''])
   \<and> ''md5=00'' \<noteq> ''sha1='' @ EncodeToString (Sum test_lib ''s3cret'' body_no_state)
   \<and> fst (validateHeaderSig test_lib ''s3cret'' [(''X-Hub-Signature'', [''md5=00''])]
        body_no_state) = False"
proof -
  have absent: "signature_header test_lib unsigned_headers = None"
    by (simp add: signature_header_def unsigned_headers_def test_lib_def)
  have none: "signature_header test_lib [(''X-Hub-Signature'', [])] = Some (''X-Hub-Signature'', [])"
    by (simp add: signature_header_def test_lib_def)
  have two: "signature_header test_lib [(''X-Hub-Signature'', [''sha1=00'', ''sha1=01''])]
      = Some (''X-Hub-Signature'', [''sha1=00'', ''sha1=01''])"
    by (simp add: signature_header_def test_lib_def)
  have other: "signature_header test_lib [(''X-Hub-Signature'', [''md5=00''])]
      = Some (''X-Hub-Signature'', [''md5=00''])"
    by (simp add: signature_header_def test_lib_def)
  have differs: "''md5=00'' \<noteq> ''sha1='' @ EncodeToString (Sum test_lib ''s3cret'' body_no_state)"
    by simp
  from absent none two other differs show ?thesis
    using validateHeaderSig_rejects [of test_lib unsigned_headers "''s3cret''" body_no_state]
      validateHeaderSig_rejects [of test_lib "[(''X-Hub-Signature'', [])]" "''s3cret''" body_no_state]
      validateHeaderSig_rejects [of test_lib "[(''X-Hub-Signature'', [''sha1=00'', ''sha1=01''])]"
        "''s3cret''" body_no_state]
      validateHeaderSig_rejects [of test_lib "[(''X-Hub-Signature'', [''md5=00''])]"
        "''s3cret''" body_no_state]
    by simp
qed

text \<open>
  C10, as the code has it. The validator writes a diagnostic to standard error when the
  \<open>X-Hub-Signature\<close> header is there with no value or with several values, and when
  the write to the HMAC fails, and returns false each time; when the header is missing
  it returns false and writes nothing.
\<close>

theorem validateHeaderSig_diagnostics:
  "(signature_header l headers = None \<longrightarrow> validateHeaderSig l key headers body = (False, []))
   \<and> (\<forall>k v. signature_header l headers = Some (k, v) \<and> length v \<noteq> 1 \<longrightarrow>
          validateHeaderSig l key headers body = (False, [''Got suspicious signature'']))
   \<and> (\<forall>k v n err. signature_header l headers = Some (k, v) \<and> length v = 1
          \<and> Write l key body = (n, Some err) \<longrightarrow>
          fst (validateHeaderSig l key headers body) = False
          \<and> ''Failed to write request body to HMAC to calculate signature''
            \<in> set (snd (validateHeaderSig l key headers body)))"
  by (auto simp: validateHeaderSig_find)

theorem validateHeaderSig_diagnostics_witness:
  "signature_header test_lib unsigned_headers = None
   \<and> validateHeaderSig test_lib ''s3cret'' unsigned_headers body_no_state = (False, [])
   \<and> signature_header test_lib [(''X-Hub-Signature'', [''sha1=00'', ''sha1=01''])]
       = Some (''X-Hub-Signature'', [''sha1=00'', ''sha1=01''])
   \<and> validateHeaderSig test_lib ''s3cret'' [(''X-Hub-Signature'', [''sha1=00'', ''sha1=01''])]
        body_no_state = (False, [''Got suspicious signature''])
   \<and> signature_header (test_lib\<lparr>Write := \<lambda>key body. (0, Some ''short write'')\<rparr>)
        [(''X-Hub-Signature'', [''sha1=00''])] = Some (''X-Hub-Signature'', [''sha1=00''])
   \<and> fst (validateHeaderSig (test_lib\<lparr>Write := \<lambda>key body. (0, Some ''short write'')\<rparr>)
        ''s3cret'' [(''X-Hub-Signature'', [''sha1=00''])] body_no_state) = False
   \<and> ''Failed to write request body to HMAC to calculate signature''
        \<in> set (snd (validateHeaderSig (test_lib\<lparr>Write := \<lambda>key body. (0, Some ''short write'')\<rparr>)
             ''s3cret'' [(''X-Hub-Signature'', [''sha1=00''])] body_no_state))"
proof -
  have absent: "signature_header test_lib unsigned_headers = None"
    by (simp add: signature_header_def unsigned_headers_def test_lib_def)
  have two: "signature_header test_lib [(''X-Hub-Signature'', [''sha1=00'', ''sha1=01''])]
      = Some (''X-Hub-Signature'', [''sha1=00'', ''sha1=01''])"
    by (simp add: signature_header_def test_lib_def)
  have one: "signature_header (test_lib\<lparr>Write := \<lambda>key body. (0, Some ''short write'')\<rparr>)
      [(''X-Hub-Signature'', [''sha1=00''])] = Some (''X-Hub-Signature'', [''sha1=00''])"
    by (simp add: signature_header_def test_lib_def)
  have fails: "Write (test_lib\<lparr>Write := \<lambda>key body. (0, Some ''short write'')\<rparr>) ''s3cret'' body_no_state
      = (0, Some ''short write'')"
    by simp
  from absent two one fails show ?thesis
    using validateHeaderSig_diagnostics [of test_lib unsigned_headers "''s3cret''" body_no_state]
      validateHeaderSig_diagnostics [of test_lib "[(''X-Hub-Signature'', [''sha1=00'', ''sha1=01''])]"
        "''s3cret''" body_no_state]
      validateHeaderSig_diagnostics [of "test_lib\<lparr>Write := \<lambda>key body. (0, Some ''short write'')\<rparr>"
        "[(''X-Hub-Signature'', [''sha1=00''])]" "''s3cret''" body_no_state]
    by simp
qed

text \<open>
  C10, as the claim has it, fails: on a request with no \<open>X-Hub-Signature\<close> header the
  validator returns false and writes nothing to standard error.
\<close>

theorem validateHeaderSig_missing_header_silent:
  "signature_header test_lib unsigned_headers = None
   \<and> validateHeaderSig test_lib ''s3cret'' unsigned_headers body_no_state = (False, [])"
  by (simp add: signature_header_def unsigned_headers_def test_lib_def)


section \<open>The issue reopener\<close>

lemma invocations_Nil [simp]: "invocations [] = 0"
  by (simp add: invocations_def)

lemma invocations_Cons [simp]:
  "invocations (e # es) = (if is_ReopenIssue e then 1 else 0) + invocations es"
  by (simp add: invocations_def)

lemma invocations_append [simp]:
  "invocations (xs @ ys) = invocations xs + invocations ys"
  by (simp add: invocations_def)

lemma invocations_Stderr [simp]: "invocations (map Stderr diag) = 0"
  by (induction diag) (simp_all add: invocations_def)

lemma invocations_reopenIssue [simp]: "invocations (snd (reopenIssue l cfg issue)) = 0"
  by (simp add: reopenIssue_def Let_def split: option.splits)

text \<open>
  C6. When posting the comment fails, \<open>reopenIssue\<close> returns that error and makes no
  call to edit the issue: its only effects are the one API call and the line on
  standard error.
\<close>

theorem reopenIssue_fail_fast:
  assumes "Issues_CreateComment l (githubAccessToken cfg) repoOwner repoName (GetNumber issue) reminder
             = Some err"
  shows "fst (reopenIssue l cfg issue) = Some err
         \<and> \<not> list_ex is_Edit (snd (reopenIssue l cfg issue))
         \<and> snd (reopenIssue l cfg issue)
             = [CreateComment repoOwner repoName (GetNumber issue) reminder,
                Stderr (''Got '' @ err @ '' trying to add a friendly comment to the issue'')]"
  using assms by (simp add: reopenIssue_def Let_def)

theorem reopenIssue_fail_fast_witness:
  "Issues_CreateComment (test_lib\<lparr>Issues_CreateComment := \<lambda>token owner repo number body. Some ''403 Forbidden''\<rparr>)
     (githubAccessToken test_config) repoOwner repoName (GetNumber closed_unlabelled) reminder
     = Some ''403 Forbidden''
   \<and> fst (reopenIssue (test_lib\<lparr>Issues_CreateComment := \<lambda>token owner repo number body. Some ''403 Forbidden''\<rparr>)
        test_config closed_unlabelled) = Some ''403 Forbidden''
   \<and> \<not> list_ex is_Edit
        (snd (reopenIssue (test_lib\<lparr>Issues_CreateComment := \<lambda>token owner repo number body. Some ''403 Forbidden''\<rparr>)
           test_config closed_unlabelled))"
proof -
  have fails: "Issues_CreateComment
      (test_lib\<lparr>Issues_CreateComment := \<lambda>token owner repo number body. Some ''403 Forbidden''\<rparr>)
      (githubAccessToken test_config) repoOwner repoName (GetNumber closed_unlabelled) reminder
      = Some ''403 Forbidden''"
    by simp
  from reopenIssue_fail_fast [OF fails] fails show ?thesis
    by simp
qed

section \<open>The webhook receiver\<close>

text \<open>
  C8. When reading the body fails, the receiver logs the failure, answers with status
  400 and returns: nothing else happens on that request.
\<close>

theorem receiver_body_read_failure:
  assumes "Body req = Inl err"
  shows "receiver l cfg req
           = (Returned, [LogPrintf (''Error reading body: '' @ err), HttpError cant_read_body 400])"
  using assms by (simp add: receiver_def StatusBadRequest_def)

theorem receiver_body_read_failure_witness:
  "Body (signed_request test_lib test_config body_closed_unlabelled\<lparr>Body := Inl ''unexpected EOF''\<rparr>)
     = Inl ''unexpected EOF''
   \<and> receiver test_lib test_config
        (signed_request test_lib test_config body_closed_unlabelled\<lparr>Body := Inl ''unexpected EOF''\<rparr>)
       = (Returned, [LogPrintf ''Error reading body: unexpected EOF'', HttpError cant_read_body 400])"
  using receiver_body_read_failure
    [of "signed_request test_lib test_config body_closed_unlabelled\<lparr>Body := Inl ''unexpected EOF''\<rparr>"
      "''unexpected EOF''" test_lib test_config]
  by simp

text \<open>
  C5. On a request with no \<open>X-Hub-Signature\<close> header the receiver returns without
  reaching the JSON decoder; when the body could be read, it does nothing at all.
\<close>

theorem receiver_unsigned_not_decoded:
  assumes "\<forall>(k, v) \<in> set (Header req). CanonicalHeaderKey l k \<noteq> ''X-Hub-Signature''"
  shows "fst (receiver l cfg req) = Returned
         \<and> \<not> list_ex is_JsonDecode (snd (receiver l cfg req))
         \<and> (\<forall>body. Body req = Inr body \<longrightarrow> receiver l cfg req = (Returned, []))"
proof -
  from assms have "signature_header l (Header req) = None"
    by (simp add: signature_header_None)
  then have "\<And>body. validateHeaderSig l (secretToken cfg) (Header req) body = (False, [])"
    by (rule validateHeaderSig_absent)
  then show ?thesis
    by (cases "Body req") (simp_all add: receiver_def)
qed

theorem receiver_unsigned_not_decoded_witness:
  "signature_header test_lib (Header \<lparr>Header = unsigned_headers, Body = Inr body_closed_unlabelled\<rparr>)
     = None
   \<and> \<not> list_ex is_JsonDecode
        (snd (receiver test_lib test_config \<lparr>Header = unsigned_headers, Body = Inr body_closed_unlabelled\<rparr>))
   \<and> receiver test_lib test_config \<lparr>Header = unsigned_headers, Body = Inr body_closed_unlabelled\<rparr>
       = (Returned, [])"
proof -
  have unsigned: "\<forall>(k, v) \<in> set (Header \<lparr>Header = unsigned_headers, Body = Inr body_closed_unlabelled\<rparr>).
      CanonicalHeaderKey test_lib k \<noteq> ''X-Hub-Signature''"
    by (simp add: unsigned_headers_def test_lib_def)
  then have absent: "signature_header test_lib
      (Header \<lparr>Header = unsigned_headers, Body = Inr body_closed_unlabelled\<rparr>) = None"
    by (simp only: signature_header_None)
  from receiver_unsigned_not_decoded [OF unsigned, of test_config] absent show ?thesis
    by simp
qed

subsection \<open>Validated and decoded requests\<close>

lemma receiver_decoded:
  assumes "Body req = Inr body"
    and "fst (validateHeaderSig l (secretToken cfg) (Header req) body)"
    and "Decode l body = Inr (Some event)"
    and "Issue event = Some issue"
  shows "receiver l cfg req =
     (case State issue of
        None \<Rightarrow> (Panicked, [JsonDecode body])
      | Some state \<Rightarrow>
          (if state = ''closed'' \<and> \<not> hasDocLabels (Labels issue) then
             (case reopenIssue l cfg issue of
                (Some err, calls) \<Rightarrow>
                  (Returned, [JsonDecode body, ReopenIssue issue] @ calls
                     @ [Stderr (''Got error reopening issue: '' @ err)])
              | (None, calls) \<Rightarrow> (Returned, [JsonDecode body, ReopenIssue issue] @ calls))
           else (Returned, [JsonDecode body])))"
proof -
  from assms(2) have valid: "validateHeaderSig l (secretToken cfg) (Header req) body = (True, [])"
    using validateHeaderSig_True_quiet [of l "secretToken cfg" "Header req" body]
    by (cases "validateHeaderSig l (secretToken cfg) (Header req) body") simp
  show ?thesis
  proof (cases "State issue")
    case None
    with assms(1,3,4) valid show ?thesis
      by (simp add: receiver_def)
  next
    case (Some state)
    obtain e calls where "reopenIssue l cfg issue = (e, calls)"
      by (cases "reopenIssue l cfg issue")
    with Some assms(1,3,4) valid show ?thesis
      by (cases e) (simp_all add: receiver_def)
  qed
qed

lemma invocations_receiver_decoded:
  assumes "Body req = Inr body"
    and "fst (validateHeaderSig l (secretToken cfg) (Header req) body)"
    and "Decode l body = Inr (Some event)"
    and "Issue event = Some issue"
  shows "invocations (snd (receiver l cfg req))
           = (if State issue = Some ''closed'' \<and> \<not> hasDocLabels (Labels issue) then 1 else 0)"
proof -
  obtain e calls where reopened: "reopenIssue l cfg issue = (e, calls)"
    by (cases "reopenIssue l cfg issue")
  then have calls: "invocations calls = 0"
    using invocations_reopenIssue [of l cfg issue] by simp
  show ?thesis
  proof (cases "State issue")
    case None
    then show ?thesis
      by (simp add: receiver_decoded [OF assms])
  next
    case (Some state)
    with reopened calls show ?thesis
      by (cases e) (simp_all add: receiver_decoded [OF assms])
  qed
qed

lemma invocations_receiver_le: "invocations (snd (receiver l cfg req)) \<le> 1"
proof (cases "Body req")
  case (Inl err)
  then show ?thesis
    by (simp add: receiver_def)
next
  case (Inr body)
  note body = this
  show ?thesis
  proof (cases "fst (validateHeaderSig l (secretToken cfg) (Header req) body)")
    case False
    then obtain diag where "validateHeaderSig l (secretToken cfg) (Header req) body = (False, diag)"
      by (cases "validateHeaderSig l (secretToken cfg) (Header req) body") simp
    with body show ?thesis
      by (simp add: receiver_def)
  next
    case True
    note valid = this
    then have quiet: "validateHeaderSig l (secretToken cfg) (Header req) body = (True, [])"
      using validateHeaderSig_True_quiet [of l "secretToken cfg" "Header req" body]
      by (cases "validateHeaderSig l (secretToken cfg) (Header req) body") simp
    show ?thesis
    proof (cases "Decode l body")
      case (Inl err)
      with body quiet show ?thesis
        by (simp add: receiver_def)
    next
      case (Inr ev)
      show ?thesis
      proof (cases ev)
        case None
        with Inr body quiet show ?thesis
          by (simp add: receiver_def)
      next
        case (Some event)
        show ?thesis
        proof (cases "Issue event")
          case None
          with Some Inr body quiet show ?thesis
            by (simp add: receiver_def)
        next
          case (Some issue)
          from body valid Inr \<open>ev = Some event\<close> Some show ?thesis
            by (simp add: invocations_receiver_decoded)
        qed
      qed
    qed
  qed
qed


subsection \<open>The reopener in a run\<close>

text \<open>
  One call of \<open>reopenIssue\<close> posts exactly one comment and edits the issue at most
  once, so the comments posted in a run count its calls of \<open>reopenIssue\<close>.
\<close>

lemma reopenIssue_one_comment:
  "length (filter is_CreateComment (snd (reopenIssue l cfg issue))) = 1
   \<and> length (filter is_Edit (snd (reopenIssue l cfg issue))) \<le> 1
   \<and> hd (snd (reopenIssue l cfg issue)) = CreateComment repoOwner repoName (GetNumber issue) reminder"
  by (simp add: reopenIssue_def Let_def split: option.splits)

lemma reopenIssue_comment_mem:
  "CreateComment repoOwner repoName (GetNumber issue) reminder \<in> set (snd (reopenIssue l cfg issue))"
  by (simp add: reopenIssue_def Let_def split: option.splits)

text \<open>What the receiver does around its call of \<open>reopenIssue\<close>.\<close>

lemma receiver_reopening:
  assumes "Body req = Inr body"
    and "fst (validateHeaderSig l (secretToken cfg) (Header req) body)"
    and "Decode l body = Inr (Some event)"
    and "Issue event = Some issue"
    and "State issue = Some ''closed''"
    and "\<not> hasDocLabels (Labels issue)"
  shows "receiver l cfg req =
     (Returned, [JsonDecode body, ReopenIssue issue] @ snd (reopenIssue l cfg issue)
        @ (case fst (reopenIssue l cfg issue) of
             None \<Rightarrow> []
           | Some err \<Rightarrow> [Stderr (''Got error reopening issue: '' @ err)]))"
proof -
  obtain e calls where "reopenIssue l cfg issue = (e, calls)"
    by (cases "reopenIssue l cfg issue")
  with assms(5,6) show ?thesis
    by (cases e) (simp_all add: receiver_decoded [OF assms(1-4)])
qed

lemma receiver_not_reopening:
  assumes "Body req = Inr body"
    and "fst (validateHeaderSig l (secretToken cfg) (Header req) body)"
    and "Decode l body = Inr (Some event)"
    and "Issue event = Some issue"
    and "\<not> (State issue = Some ''closed'' \<and> \<not> hasDocLabels (Labels issue))"
  shows "snd (receiver l cfg req) = [JsonDecode body]"
  using assms(5) by (cases "State issue") (auto simp: receiver_decoded [OF assms(1-4)])

text \<open>
  Every run either has the effects of one call of \<open>reopenIssue\<close>, between the
  decoding and the report of its error, or has no comment, no edit and no call.
\<close>

lemma receiver_trace_shape:
  "(\<exists>body issue.
      snd (receiver l cfg req) = [JsonDecode body, ReopenIssue issue] @ snd (reopenIssue l cfg issue)
        @ (case fst (reopenIssue l cfg issue) of
             None \<Rightarrow> []
           | Some err \<Rightarrow> [Stderr (''Got error reopening issue: '' @ err)]))
   \<or> (filter is_ReopenIssue (snd (receiver l cfg req)) = []
      \<and> filter is_CreateComment (snd (receiver l cfg req)) = []
      \<and> filter is_Edit (snd (receiver l cfg req)) = [])"
proof (cases "Body req")
  case (Inl err)
  then show ?thesis
    by (simp add: receiver_def)
next
  case (Inr body)
  note body = this
  have quiet: "\<And>p diag. (\<And>s. \<not> p (Stderr s)) \<Longrightarrow> filter p (map Stderr diag) = []"
    by (simp add: filter_empty_conv)
  show ?thesis
  proof (cases "fst (validateHeaderSig l (secretToken cfg) (Header req) body)")
    case False
    then obtain diag where "validateHeaderSig l (secretToken cfg) (Header req) body = (False, diag)"
      by (cases "validateHeaderSig l (secretToken cfg) (Header req) body") simp
    with body show ?thesis
      by (simp add: receiver_def quiet)
  next
    case True
    note valid = this
    then have accepted: "validateHeaderSig l (secretToken cfg) (Header req) body = (True, [])"
      using validateHeaderSig_True_quiet [of l "secretToken cfg" "Header req" body]
      by (cases "validateHeaderSig l (secretToken cfg) (Header req) body") simp
    show ?thesis
    proof (cases "Decode l body")
      case (Inl err)
      with body accepted show ?thesis
        by (simp add: receiver_def)
    next
      case (Inr ev)
      show ?thesis
      proof (cases ev)
        case None
        with Inr body accepted show ?thesis
          by (simp add: receiver_def)
      next
        case (Some event)
        note event = this
        show ?thesis
        proof (cases "Issue event")
          case None
          with event Inr body accepted show ?thesis
            by (simp add: receiver_def)
        next
          case (Some issue)
          from Inr event have decoded: "Decode l body = Inr (Some event)"
            by simp
          show ?thesis
          proof (cases "State issue = Some ''closed'' \<and> \<not> hasDocLabels (Labels issue)")
            case True
            then have "receiver l cfg req =
                (Returned, [JsonDecode body, ReopenIssue issue] @ snd (reopenIssue l cfg issue)
                   @ (case fst (reopenIssue l cfg issue) of
                        None \<Rightarrow> []
                      | Some err \<Rightarrow> [Stderr (''Got error reopening issue: '' @ err)]))"
              using receiver_reopening [OF body valid decoded Some] by simp
            then have "snd (receiver l cfg req) =
                [JsonDecode body, ReopenIssue issue] @ snd (reopenIssue l cfg issue)
                   @ (case fst (reopenIssue l cfg issue) of
                        None \<Rightarrow> []
                      | Some err \<Rightarrow> [Stderr (''Got error reopening issue: '' @ err)])"
              by simp
            then show ?thesis
              by blast
          next
            case False
            then have "snd (receiver l cfg req) = [JsonDecode body]"
              by (rule receiver_not_reopening [OF body valid decoded Some])
            then show ?thesis
              by simp
          qed
        qed
      qed
    qed
  qed
qed

lemma receiver_counts:
  "length (filter is_ReopenIssue (snd (receiver l cfg req))) \<le> 1
   \<and> length (filter is_CreateComment (snd (receiver l cfg req))) \<le> 1
   \<and> length (filter is_Edit (snd (receiver l cfg req))) \<le> 1
   \<and> length (filter is_CreateComment (snd (receiver l cfg req)))
       = length (filter is_ReopenIssue (snd (receiver l cfg req)))"
proof -
  from receiver_trace_shape [of l cfg req] show ?thesis
  proof
    assume "\<exists>body issue.
      snd (receiver l cfg req) = [JsonDecode body, ReopenIssue issue] @ snd (reopenIssue l cfg issue)
        @ (case fst (reopenIssue l cfg issue) of
             None \<Rightarrow> []
           | Some err \<Rightarrow> [Stderr (''Got error reopening issue: '' @ err)])"
    then obtain body issue where shape:
      "snd (receiver l cfg req) = [JsonDecode body, ReopenIssue issue] @ snd (reopenIssue l cfg issue)
        @ (case fst (reopenIssue l cfg issue) of
             None \<Rightarrow> []
           | Some err \<Rightarrow> [Stderr (''Got error reopening issue: '' @ err)])"
      by blast
    have calls: "filter is_ReopenIssue (snd (reopenIssue l cfg issue)) = []"
      using invocations_reopenIssue [of l cfg issue] by (simp add: invocations_def)
    show ?thesis
      using reopenIssue_one_comment [of l cfg issue] calls
      by (cases "fst (reopenIssue l cfg issue)") (simp_all add: shape)
  next
    assume "filter is_ReopenIssue (snd (receiver l cfg req)) = []
      \<and> filter is_CreateComment (snd (receiver l cfg req)) = []
      \<and> filter is_Edit (snd (receiver l cfg req)) = []"
    then show ?thesis
      by simp
  qed
qed

text \<open>
  C1. On a request whose body is read, whose signature validates, whose body decodes
  to an event and whose event has an issue, \<open>reopenIssue\<close> is called if and only if
  the issue's state is \<open>closed\<close> and the label policy returns false on its labels:
  then the run is the decoding, the call on that issue with all the effects of
  \<open>reopenIssue\<close>, the comment posted first, and the report of its error if it has
  one; otherwise no comment is posted. On an issue whose state is \<open>open\<close> the run is
  the decoding alone, whatever the labels.
\<close>

theorem receiver_reopens_iff:
  assumes "Body req = Inr body"
    and "fst (validateHeaderSig l (secretToken cfg) (Header req) body)"
    and "Decode l body = Inr (Some event)"
    and "Issue event = Some issue"
  shows "(0 < invocations (snd (receiver l cfg req))
            \<longleftrightarrow> State issue = Some ''closed'' \<and> \<not> hasDocLabels (Labels issue))
         \<and> (ReopenIssue issue \<in> set (snd (receiver l cfg req))
            \<longleftrightarrow> State issue = Some ''closed'' \<and> \<not> hasDocLabels (Labels issue))
         \<and> (CreateComment repoOwner repoName (GetNumber issue) reminder \<in> set (snd (receiver l cfg req))
            \<longleftrightarrow> State issue = Some ''closed'' \<and> \<not> hasDocLabels (Labels issue))
         \<and> (list_ex is_CreateComment (snd (receiver l cfg req))
            \<longleftrightarrow> State issue = Some ''closed'' \<and> \<not> hasDocLabels (Labels issue))
         \<and> (State issue = Some ''closed'' \<and> \<not> hasDocLabels (Labels issue) \<longrightarrow>
              receiver l cfg req =
                (Returned, [JsonDecode body, ReopenIssue issue] @ snd (reopenIssue l cfg issue)
                   @ (case fst (reopenIssue l cfg issue) of
                        None \<Rightarrow> []
                      | Some err \<Rightarrow> [Stderr (''Got error reopening issue: '' @ err)])))
         \<and> (State issue = Some ''open'' \<longrightarrow>
              invocations (snd (receiver l cfg req)) = 0
              \<and> receiver l cfg req = (Returned, [JsonDecode body]))"
proof (cases "State issue = Some ''closed'' \<and> \<not> hasDocLabels (Labels issue)")
  case True
  then have run: "receiver l cfg req =
      (Returned, [JsonDecode body, ReopenIssue issue] @ snd (reopenIssue l cfg issue)
         @ (case fst (reopenIssue l cfg issue) of
              None \<Rightarrow> []
            | Some err \<Rightarrow> [Stderr (''Got error reopening issue: '' @ err)]))"
    using receiver_reopening [OF assms] by simp
  have posted: "CreateComment repoOwner repoName (GetNumber issue) reminder
      \<in> set (snd (receiver l cfg req))"
    by (simp add: run reopenIssue_comment_mem)
  then have some: "list_ex is_CreateComment (snd (receiver l cfg req))"
    by (metis list_ex_iff is_CreateComment.simps(1))
  have called: "ReopenIssue issue \<in> set (snd (receiver l cfg req))"
    by (simp add: run)
  have count: "0 < invocations (snd (receiver l cfg req))"
    by (simp add: invocations_receiver_decoded [OF assms] True)
  from True run posted some called count show ?thesis
    by simp
next
  case False
  then have run: "snd (receiver l cfg req) = [JsonDecode body]"
    by (rule receiver_not_reopening [OF assms])
  have outcome: "State issue = Some ''open'' \<Longrightarrow> receiver l cfg req = (Returned, [JsonDecode body])"
    by (simp add: receiver_decoded [OF assms])
  from False run outcome show ?thesis
    by auto
qed

theorem receiver_reopens_iff_witness:
  "Body (signed_request test_lib test_config body_closed_unlabelled) = Inr body_closed_unlabelled
   \<and> fst (validateHeaderSig test_lib (secretToken test_config)
        (Header (signed_request test_lib test_config body_closed_unlabelled)) body_closed_unlabelled)
   \<and> Decode test_lib body_closed_unlabelled = Inr (Some \<lparr>Issue = Some closed_unlabelled\<rparr>)
   \<and> Issue \<lparr>Issue = Some closed_unlabelled\<rparr> = Some closed_unlabelled
   \<and> 0 < invocations (snd (receiver test_lib test_config
        (signed_request test_lib test_config body_closed_unlabelled)))
   \<and> CreateComment repoOwner repoName 7 reminder
        \<in> set (snd (receiver test_lib test_config
             (signed_request test_lib test_config body_closed_unlabelled)))
   \<and> Body (signed_request test_lib test_config body_open_unlabelled) = Inr body_open_unlabelled
   \<and> fst (validateHeaderSig test_lib (secretToken test_config)
        (Header (signed_request test_lib test_config body_open_unlabelled)) body_open_unlabelled)
   \<and> Decode test_lib body_open_unlabelled = Inr (Some \<lparr>Issue = Some open_unlabelled\<rparr>)
   \<and> Issue \<lparr>Issue = Some open_unlabelled\<rparr> = Some open_unlabelled
   \<and> receiver test_lib test_config (signed_request test_lib test_config body_open_unlabelled)
       = (Returned, [JsonDecode body_open_unlabelled])"
proof -
  have read: "\<And>body. Body (signed_request test_lib test_config body) = Inr body"
    by (simp add: signed_request_def)
  have valid: "\<And>body. fst (validateHeaderSig test_lib (secretToken test_config)
      (Header (signed_request test_lib test_config body)) body)"
    by (simp add: test_lib_validates)
  have closed: "Decode test_lib body_closed_unlabelled = Inr (Some \<lparr>Issue = Some closed_unlabelled\<rparr>)"
    by (simp add: test_lib_def test_Decode_def)
  have opened: "Decode test_lib body_open_unlabelled = Inr (Some \<lparr>Issue = Some open_unlabelled\<rparr>)"
    by (simp add: test_lib_def test_Decode_def body_open_unlabelled_def body_closed_unlabelled_def)
  have issue: "\<And>i. Issue \<lparr>Issue = Some i\<rparr> = Some i"
    by simp
  have facts: "State closed_unlabelled = Some ''closed''" "\<not> hasDocLabels (Labels closed_unlabelled)"
    "GetNumber closed_unlabelled = 7" "State open_unlabelled = Some ''open''"
    by (simp_all add: closed_unlabelled_def open_unlabelled_def GetNumber_def)
  from receiver_reopens_iff [OF read valid closed issue] facts(1,2)
  have a: "0 < invocations (snd (receiver test_lib test_config
        (signed_request test_lib test_config body_closed_unlabelled)))"
    and b': "CreateComment repoOwner repoName (GetNumber closed_unlabelled) reminder
        \<in> set (snd (receiver test_lib test_config
             (signed_request test_lib test_config body_closed_unlabelled)))"
    by blast+
  from b' have b: "CreateComment repoOwner repoName 7 reminder
        \<in> set (snd (receiver test_lib test_config
             (signed_request test_lib test_config body_closed_unlabelled)))"
    by (simp only: facts(3))
  from receiver_reopens_iff [OF read valid opened issue] facts(4)
  have c: "receiver test_lib test_config (signed_request test_lib test_config body_open_unlabelled)
       = (Returned, [JsonDecode body_open_unlabelled])"
    by blast
  from a b c read valid closed opened show ?thesis
    by simp
qed

text \<open>
  C9. One run of the receiver calls \<open>reopenIssue\<close> at most once: it posts at most
  one comment and makes at most one edit, and every call of \<open>reopenIssue\<close> posts
  exactly one comment. On a validated request whose event has an issue with state
  \<open>closed\<close> and no labels it calls \<open>reopenIssue\<close> exactly once: the run is the
  decoding, the call with the effects of \<open>reopenIssue\<close> on that issue, and the
  report of its error if it has one, with exactly one comment posted.
\<close>

theorem receiver_reopens_at_most_once:
  "invocations (snd (receiver l cfg req)) \<le> 1
   \<and> length (filter is_CreateComment (snd (receiver l cfg req))) \<le> 1
   \<and> length (filter is_Edit (snd (receiver l cfg req))) \<le> 1
   \<and> length (filter is_CreateComment (snd (receiver l cfg req))) = invocations (snd (receiver l cfg req))
   \<and> (\<forall>issue. length (filter is_CreateComment (snd (reopenIssue l cfg issue))) = 1)
   \<and> (\<forall>body event issue.
         Body req = Inr body
         \<and> fst (validateHeaderSig l (secretToken cfg) (Header req) body)
         \<and> Decode l body = Inr (Some event)
         \<and> Issue event = Some issue
         \<and> State issue = Some ''closed'' \<and> Labels issue = []
         \<longrightarrow> invocations (snd (receiver l cfg req)) = 1
             \<and> length (filter is_CreateComment (snd (receiver l cfg req))) = 1
             \<and> receiver l cfg req =
                 (Returned, [JsonDecode body, ReopenIssue issue] @ snd (reopenIssue l cfg issue)
                    @ (case fst (reopenIssue l cfg issue) of
                         None \<Rightarrow> []
                       | Some err \<Rightarrow> [Stderr (''Got error reopening issue: '' @ err)])))"
proof -
  note counts = receiver_counts [of l cfg req, folded invocations_def]
  have once: "invocations (snd (receiver l cfg req)) = 1
      \<and> length (filter is_CreateComment (snd (receiver l cfg req))) = 1
      \<and> receiver l cfg req =
          (Returned, [JsonDecode body, ReopenIssue issue] @ snd (reopenIssue l cfg issue)
             @ (case fst (reopenIssue l cfg issue) of
                  None \<Rightarrow> []
                | Some err \<Rightarrow> [Stderr (''Got error reopening issue: '' @ err)]))"
    if "Body req = Inr body" "fst (validateHeaderSig l (secretToken cfg) (Header req) body)"
      "Decode l body = Inr (Some event)" "Issue event = Some issue"
      "State issue = Some ''closed''" "Labels issue = []"
    for body event issue
  proof -
    from that(6) have unlabelled: "\<not> hasDocLabels (Labels issue)"
      by simp
    have "invocations (snd (receiver l cfg req)) = 1"
      using that(5) unlabelled by (simp add: invocations_receiver_decoded [OF that(1-4)])
    with counts receiver_reopening [OF that(1-5) unlabelled] show ?thesis
      by simp
  qed
  from counts once reopenIssue_one_comment [of l cfg] show ?thesis
    by blast
qed

theorem receiver_reopens_at_most_once_witness:
  "Body (signed_request test_lib test_config body_closed_unlabelled) = Inr body_closed_unlabelled
   \<and> fst (validateHeaderSig test_lib (secretToken test_config)
        (Header (signed_request test_lib test_config body_closed_unlabelled)) body_closed_unlabelled)
   \<and> Decode test_lib body_closed_unlabelled = Inr (Some \<lparr>Issue = Some closed_unlabelled\<rparr>)
   \<and> State closed_unlabelled = Some ''closed'' \<and> Labels closed_unlabelled = []
   \<and> invocations (snd (receiver test_lib test_config
        (signed_request test_lib test_config body_closed_unlabelled))) = 1
   \<and> length (filter is_CreateComment (snd (receiver test_lib test_config
        (signed_request test_lib test_config body_closed_unlabelled)))) = 1"
proof -
  have read: "Body (signed_request test_lib test_config body_closed_unlabelled) = Inr body_closed_unlabelled"
    by (simp add: signed_request_def)
  have valid: "fst (validateHeaderSig test_lib (secretToken test_config)
      (Header (signed_request test_lib test_config body_closed_unlabelled)) body_closed_unlabelled)"
    by (simp add: test_lib_validates)
  have closed: "Decode test_lib body_closed_unlabelled = Inr (Some \<lparr>Issue = Some closed_unlabelled\<rparr>)"
    by (simp add: test_lib_def test_Decode_def)
  have issue: "Issue \<lparr>Issue = Some closed_unlabelled\<rparr> = Some closed_unlabelled"
    by simp
  have state: "State closed_unlabelled = Some ''closed'' \<and> Labels closed_unlabelled = []"
    by (simp add: closed_unlabelled_def)
  from receiver_reopens_at_most_once
    [of test_lib test_config "signed_request test_lib test_config body_closed_unlabelled"]
  have "invocations (snd (receiver test_lib test_config
      (signed_request test_lib test_config body_closed_unlabelled))) = 1
    \<and> length (filter is_CreateComment (snd (receiver test_lib test_config
      (signed_request test_lib test_config body_closed_unlabelled)))) = 1"
    using read valid closed issue state by blast
  with read valid closed state show ?thesis
    by simp
qed

subsection \<open>An issue without a state\<close>

text \<open>
  The condition of the receiver reads \<open>*event.Issue.State\<close>, not the nil-safe getter:
  on an issue whose state is absent the handler panics.
\<close>

lemma receiver_nil_state_panics:
  assumes "Body req = Inr body"
    and "fst (validateHeaderSig l (secretToken cfg) (Header req) body)"
    and "Decode l body = Inr (Some event)"
    and "Issue event = Some issue"
    and "State issue = None"
  shows "receiver l cfg req = (Panicked, [JsonDecode body])"
  using assms(5) by (simp add: receiver_decoded [OF assms(1-4)])

text \<open>
  C4 fails on the code: a validated request whose body is an issue without a
  \<open>state\<close> member makes the receiver panic while it evaluates the reopen condition.
\<close>

theorem receiver_absent_state_panics:
  "receiver test_lib test_config (signed_request test_lib test_config body_no_state)
     = (Panicked, [JsonDecode body_no_state])"
proof (rule receiver_nil_state_panics)
  show "Body (signed_request test_lib test_config body_no_state) = Inr body_no_state"
    by (simp add: signed_request_def)
  show "fst (validateHeaderSig test_lib (secretToken test_config)
      (Header (signed_request test_lib test_config body_no_state)) body_no_state)"
    by (simp add: test_lib_validates)
  show "Decode test_lib body_no_state = Inr (Some \<lparr>Issue = Some no_state\<rparr>)"
    by (simp add: test_lib_def test_Decode_def body_no_state_def body_open_unlabelled_def
      body_closed_unlabelled_def)
  show "Issue \<lparr>Issue = Some no_state\<rparr> = Some no_state"
    by simp
  show "State no_state = None"
    by (simp add: no_state_def)
qed

end
